theory Spec2Isabelle
  imports Complex_Main "HOL-Library.Word" "HOL-Library.Char_ord" "HOL-Library.List_Lexorder"
begin

section \<open>JavaScript values\<close>

text \<open>
  The functions of \<^verbatim>\<open>src/serialize.ts\<close> are typed in TypeScript, but at run time they
  probe their argument dynamically (\<^verbatim>\<open>typeof\<close>, \<^verbatim>\<open>Array.isArray\<close>, \<^verbatim>\<open>in\<close>), so the
  embedding works on a datatype of plain JavaScript data. Strings are lists of
  characters, one character standing for one UTF-16 code unit of the source string.
  A finite number is idealised as a rational (the rounding of IEEE doubles is not
  modelled). A \<^verbatim>\<open>Date\<close> carries its time value in milliseconds, \<open>None\<close> for an invalid
  date. An object is the list of its own enumerable properties in property order.
  Functions and symbols are outside the model, so every own property is data; what
  an object inherits from its prototype (\<^verbatim>\<open>toString\<close>, \<^verbatim>\<open>valueOf\<close>, \<^verbatim>\<open>join\<close>) is
  modelled where the module calls it, and is not seen by the test \<^verbatim>\<open>in\<close> of the
  model.
\<close>

datatype jsnum = NaN | PosInf | NegInf | Fin rat

datatype jsval =
    Undefined
  | Null
  | JBool bool
  | JNum jsnum
  | JStr string
  | JArr "jsval list"
  | JObj "(string \<times> jsval) list"
  | JDate "int option"

text \<open>
  Every exception of the module is a JavaScript \<^verbatim>\<open>TypeError\<close>: the two explicit
  \<^verbatim>\<open>throw new TypeError()\<close>, and the ones the runtime raises (\<^verbatim>\<open>in\<close> applied to a
  primitive, a method call on \<^verbatim>\<open>null\<close> or \<^verbatim>\<open>undefined\<close>). The \<^verbatim>\<open>URL\<close> constructor
  raises a \<^verbatim>\<open>TypeError\<close> with code \<^verbatim>\<open>ERR_INVALID_URL\<close>, kept apart here.
\<close>

datatype error = TypeError | ERR_INVALID_URL

type_synonym byte = "8 word"

record url =
  protocol :: string
  host :: string
  pathname :: string
  search :: string
  hash :: string

text \<open>
  What the module imports and does not define: the native conversions of the
  language, \<^verbatim>\<open>encodePath\<close> of \<^verbatim>\<open>./util\<close>, \<^verbatim>\<open>stringify\<close> of the package
  \<^verbatim>\<open>query-string\<close>, the \<^verbatim>\<open>URL\<close> parser, \<^verbatim>\<open>Buffer.from(_, "base64")\<close> and
  \<^verbatim>\<open>createHmac("sha1", _)\<close> of Node. They are parameters of the embedding, and every
  theorem holds for all of them. \<^verbatim>\<open>Buffer.from\<close> with the encoding \<^verbatim>\<open>"base64"\<close> has no
  failure mode for a string argument (characters outside the alphabet are skipped and
  decoding stops at the padding), hence the total type of \<open>base64Decode\<close>.
\<close>

record platform =
  ToString :: "jsval \<Rightarrow> string"
  ToNumber :: "jsval \<Rightarrow> jsnum"
  encodePath :: "jsval list \<Rightarrow> string"
  stringify :: "(string \<times> jsval) list \<Rightarrow> jsval \<Rightarrow> error + string"
  parseURL :: "string \<Rightarrow> url option"
  base64Decode :: "string \<Rightarrow> byte list"
  hmacSha1 :: "byte list \<Rightarrow> string \<Rightarrow> byte list"

section \<open>Language primitives used by the module\<close>

definition separator :: string where
  "separator = ''|''"

fun join :: "string \<Rightarrow> string list \<Rightarrow> string" where
  "join sep [] = []"
| "join sep [x] = x"
| "join sep (x # y # ys) = x @ sep @ join sep (y # ys)"

text \<open>\<^verbatim>\<open>s.split(c)\<close> for a one-character separator: never empty, \<^verbatim>\<open>"".split(",")\<close> is \<^verbatim>\<open>[""]\<close>.\<close>

fun split_on :: "char \<Rightarrow> string \<Rightarrow> string list" where
  "split_on sep [] = [[]]"
| "split_on sep (c # cs) =
     (if c = sep then [] # split_on sep cs
      else (case split_on sep cs of [] \<Rightarrow> [[c]] | p # ps \<Rightarrow> (c # p) # ps))"

text \<open>\<^verbatim>\<open>s.replace(/a/g, "b")\<close> for single characters.\<close>

definition replace_all :: "char \<Rightarrow> char \<Rightarrow> string \<Rightarrow> string" where
  "replace_all a b s = map (\<lambda>c. if c = a then b else c) s"

text \<open>\<^verbatim>\<open>xs[i]\<close>: reading past the end of an array gives \<^verbatim>\<open>undefined\<close>.\<close>

definition index :: "jsval list \<Rightarrow> nat \<Rightarrow> jsval" where
  "index xs i = (if i < length xs then xs ! i else Undefined)"

text \<open>The decimal name of an array index.\<close>

definition digit_char :: "nat \<Rightarrow> char" where
  "digit_char n = ''0123456789'' ! (n mod 10)"

fun show_nat :: "nat \<Rightarrow> string" where
  "show_nat n =
     (if n < 10 then [digit_char n]
      else show_nat (n div 10) @ [digit_char n])"

declare show_nat.simps [simp del]

text \<open>The own enumerable properties of a value that is not \<^verbatim>\<open>null\<close> or \<^verbatim>\<open>undefined\<close>.\<close>

fun own_props :: "jsval \<Rightarrow> (string \<times> jsval) list" where
  "own_props (JObj kvs) = kvs"
| "own_props (JArr xs) = zip (map show_nat [0..<length xs]) xs"
| "own_props (JStr s) = zip (map show_nat [0..<length s]) (map (\<lambda>c. JStr [c]) s)"
| "own_props _ = []"

text \<open>\<^verbatim>\<open>k in o\<close>, \<^verbatim>\<open>o[k]\<close>, \<^verbatim>\<open>o[k] = v\<close> and \<^verbatim>\<open>delete o[k]\<close> on the properties of an object.\<close>

definition has_key :: "string \<Rightarrow> (string \<times> jsval) list \<Rightarrow> bool" where
  "has_key k kvs = (k \<in> fst ` set kvs)"

definition get_prop :: "string \<Rightarrow> (string \<times> jsval) list \<Rightarrow> jsval" where
  "get_prop k kvs = (case map_of kvs k of None \<Rightarrow> Undefined | Some v \<Rightarrow> v)"

fun set_prop :: "string \<Rightarrow> jsval \<Rightarrow> (string \<times> jsval) list \<Rightarrow> (string \<times> jsval) list" where
  "set_prop k v [] = [(k, v)]"
| "set_prop k v (kv # kvs) = (if fst kv = k then (k, v) # kvs else kv # set_prop k v kvs)"

definition delete_prop :: "string \<Rightarrow> (string \<times> jsval) list \<Rightarrow> (string \<times> jsval) list" where
  "delete_prop k kvs = filter (\<lambda>kv. fst kv \<noteq> k) kvs"

text \<open>
  The operator \<^verbatim>\<open>k in o\<close> on any value: a \<^verbatim>\<open>TypeError\<close> when \<open>o\<close> is a primitive.
  An array also has the property \<^verbatim>\<open>length\<close>.
\<close>

fun js_in :: "string \<Rightarrow> jsval \<Rightarrow> error + bool" where
  "js_in k (JObj kvs) = Inr (has_key k kvs)"
| "js_in k (JArr xs) = Inr (has_key k (own_props (JArr xs)) \<or> k = ''length'')"
| "js_in k (JDate t) = Inr False"
| "js_in k _ = Inl TypeError"

text \<open>\<^verbatim>\<open>a in o && b in o\<close>, evaluated left to right with short circuit.\<close>

definition in_both :: "string \<Rightarrow> string \<Rightarrow> jsval \<Rightarrow> error + bool" where
  "in_both a b v =
     (case js_in a v of
        Inl e \<Rightarrow> Inl e
      | Inr False \<Rightarrow> Inr False
      | Inr True \<Rightarrow> js_in b v)"

text \<open>
  Native string coercion (\<^verbatim>\<open>"" + x\<close>) is the platform's, taken as given.
\<close>

definition coerce_string :: "platform \<Rightarrow> jsval \<Rightarrow> string" where
  "coerce_string P x = (case x of JStr s \<Rightarrow> s | _ \<Rightarrow> ToString P x)"

text \<open>
  Which values the calls \<^verbatim>\<open>x.toString()\<close> and \<^verbatim>\<open>Number(x)\<close> can convert. An object
  with an own property \<^verbatim>\<open>toString\<close> has no callable \<^verbatim>\<open>toString\<close> (its properties are
  data), so the call is a \<^verbatim>\<open>TypeError\<close>, and so is the conversion to a primitive,
  which finds \<^verbatim>\<open>valueOf\<close> returning the object and \<^verbatim>\<open>toString\<close> not callable. An array
  converts through \<^verbatim>\<open>join\<close>, which converts each element but \<^verbatim>\<open>null\<close> and
  \<^verbatim>\<open>undefined\<close>. Everything else converts.
\<close>

fun convertible :: "jsval \<Rightarrow> bool" where
  "convertible (JObj kvs) = (\<not> has_key ''toString'' kvs)"
| "convertible (JArr xs) = list_all convertible xs"
| "convertible _ = True"

text \<open>
  \<^verbatim>\<open>x.toString()\<close>: a \<^verbatim>\<open>TypeError\<close> on \<^verbatim>\<open>null\<close> and \<^verbatim>\<open>undefined\<close>, which have no
  methods, and on a value that does not convert. \<^verbatim>\<open>Number(x)\<close>: a \<^verbatim>\<open>TypeError\<close> on a
  value that does not convert.
\<close>

definition method_toString :: "platform \<Rightarrow> jsval \<Rightarrow> error + string" where
  "method_toString P x =
     (case x of
        Undefined \<Rightarrow> Inl TypeError
      | Null \<Rightarrow> Inl TypeError
      | _ \<Rightarrow> if convertible x then Inr (coerce_string P x) else Inl TypeError)"

definition call_Number :: "platform \<Rightarrow> jsval \<Rightarrow> error + jsval" where
  "call_Number P x = (if convertible x then Inr (JNum (ToNumber P x)) else Inl TypeError)"

text \<open>\<^verbatim>\<open>xs.map(f)\<close> for a callback that may throw: the first exception ends the loop.\<close>

fun map_throwing :: "('a \<Rightarrow> error + 'b) \<Rightarrow> 'a list \<Rightarrow> error + 'b list" where
  "map_throwing f [] = Inr []"
| "map_throwing f (x # xs) =
     (case f x of
        Inl e \<Rightarrow> Inl e
      | Inr y \<Rightarrow> (case map_throwing f xs of Inl e \<Rightarrow> Inl e | Inr ys \<Rightarrow> Inr (y # ys)))"

text \<open>\<^verbatim>\<open>Array.isArray(o) && o.length === 2\<close>, and the elements of an array.\<close>

definition is_array2 :: "jsval \<Rightarrow> bool" where
  "is_array2 v = (case v of JArr xs \<Rightarrow> length xs = 2 | _ \<Rightarrow> False)"

definition elements :: "jsval \<Rightarrow> jsval list" where
  "elements v = (case v of JArr xs \<Rightarrow> xs | _ \<Rightarrow> [])"

definition read_prop :: "string \<Rightarrow> jsval \<Rightarrow> jsval" where
  "read_prop k v = get_prop k (own_props v)"

section \<open>Coordinates\<close>

text \<open>
  \<^verbatim>\<open>latLngToString\<close>, lines 26 to 44: a string is returned as it is; the next three
  branches rebind \<open>o\<close> to a pair, the last one throws; the pair is rendered by
  \<^verbatim>\<open>o.map((x) => x.toString()).join(",")\<close>.
\<close>

definition render_pair :: "platform \<Rightarrow> jsval list \<Rightarrow> error + string" where
  "render_pair P pair =
     (case map_throwing (method_toString P) pair of
        Inl e \<Rightarrow> Inl e
      | Inr strs \<Rightarrow> Inr (join '','' strs))"

definition latLngToString :: "platform \<Rightarrow> jsval \<Rightarrow> error + string" where
  "latLngToString P v =
     (case v of
        JStr s \<Rightarrow> Inr s
      | _ \<Rightarrow>
          if is_array2 v then render_pair P (elements v)
          else (case in_both ''lat'' ''lng'' v of
                  Inl e \<Rightarrow> Inl e
                | Inr True \<Rightarrow> render_pair P [read_prop ''lat'' v, read_prop ''lng'' v]
                | Inr False \<Rightarrow>
                    (case in_both ''latitude'' ''longitude'' v of
                       Inl e \<Rightarrow> Inl e
                     | Inr True \<Rightarrow> render_pair P [read_prop ''latitude'' v, read_prop ''longitude'' v]
                     | Inr False \<Rightarrow> Inl TypeError)))"

text \<open>
  \<^verbatim>\<open>toLatLngLiteral\<close>, lines 68 to 82. \<^verbatim>\<open>Number\<close> of a string never throws, and
  \<^verbatim>\<open>parts[1]\<close> of a string without a comma is \<^verbatim>\<open>undefined\<close>; \<^verbatim>\<open>o.map(Number)\<close> on a
  pair throws when a component does not convert; an object that has \<^verbatim>\<open>lat\<close> and
  \<^verbatim>\<open>lng\<close> is returned itself.
\<close>

definition literal :: "jsval \<Rightarrow> jsval \<Rightarrow> jsval" where
  "literal a b = JObj [(''lat'', a), (''lng'', b)]"

definition toLatLngLiteral :: "platform \<Rightarrow> jsval \<Rightarrow> error + jsval" where
  "toLatLngLiteral P v =
     (case v of
        JStr s \<Rightarrow>
          (let parts = map (\<lambda>p. JNum (ToNumber P (JStr p))) (split_on CHR '','' s)
           in Inr (literal (index parts 0) (index parts 1)))
      | _ \<Rightarrow>
          if is_array2 v then
            (case map_throwing (call_Number P) (elements v) of
               Inl e \<Rightarrow> Inl e
             | Inr parts \<Rightarrow> Inr (literal (index parts 0) (index parts 1)))
          else (case in_both ''lat'' ''lng'' v of
                  Inl e \<Rightarrow> Inl e
                | Inr True \<Rightarrow> Inr v
                | Inr False \<Rightarrow>
                    (case in_both ''latitude'' ''longitude'' v of
                       Inl e \<Rightarrow> Inl e
                     | Inr True \<Rightarrow> Inr (literal (read_prop ''latitude'' v) (read_prop ''longitude'' v))
                     | Inr False \<Rightarrow> Inl TypeError)))"

text \<open>
  \<^verbatim>\<open>latLngArrayToStringMaybeEncoded\<close>, lines 84 to 97. A value that is neither a string
  nor an array has no method \<^verbatim>\<open>map\<close>: calling it is a \<^verbatim>\<open>TypeError\<close>.
\<close>

definition latLngArrayToStringMaybeEncoded :: "platform \<Rightarrow> jsval \<Rightarrow> error + string" where
  "latLngArrayToStringMaybeEncoded P v =
     (case v of
        JStr s \<Rightarrow> Inr s
      | JArr xs \<Rightarrow>
          (case map_throwing (latLngToString P) xs of
             Inl e \<Rightarrow> Inl e
           | Inr strs \<Rightarrow>
               (let concatenated = join separator strs
                in case map_throwing (toLatLngLiteral P) xs of
                     Inl e \<Rightarrow> Inl e
                   | Inr literals \<Rightarrow>
                       (let encoded = ''enc:'' @ encodePath P literals
                        in if length encoded < length concatenated then Inr encoded
                           else Inr concatenated)))
      | _ \<Rightarrow> Inl TypeError)"

section \<open>Generic values\<close>


text \<open>
  \<^verbatim>\<open>toTimestamp\<close>, lines 129 to 137. \<^verbatim>\<open>Number(o)\<close> of a date is its time value in
  milliseconds (\<^verbatim>\<open>NaN\<close> for an invalid date), and \<^verbatim>\<open>/\<close> is the division of numbers.
\<close>

definition date_value :: "int option \<Rightarrow> jsnum" where
  "date_value t = (case t of None \<Rightarrow> NaN | Some ms \<Rightarrow> Fin (of_int ms))"

definition div1000 :: "jsnum \<Rightarrow> jsnum" where
  "div1000 x = (case x of Fin r \<Rightarrow> Fin (r / 1000) | _ \<Rightarrow> x)"

definition toTimestamp :: "jsval \<Rightarrow> jsval" where
  "toTimestamp v =
     (if v = JStr ''now'' then v
      else (case v of JDate t \<Rightarrow> JNum (div1000 (date_value t)) | _ \<Rightarrow> v))"

section \<open>The premium plan signature\<close>

text \<open>
  \<^verbatim>\<open>digest("base64")\<close> is the base64 encoding of RFC 4648, section 4, with padding:
  three bytes give four characters of the alphabet, a tail of one or two bytes is
  padded with \<^verbatim>\<open>=\<close>.
\<close>

definition base64_alphabet :: string where
  "base64_alphabet = ''ABCDEFGHIJKLMNOPQRSTUVWXYZabcdefghijklmnopqrstuvwxyz0123456789+/''"

definition sextet :: "nat \<Rightarrow> char" where
  "sextet n = base64_alphabet ! (n mod 64)"

fun base64_encode :: "byte list \<Rightarrow> string" where
  "base64_encode [] = []"
| "base64_encode [a] =
     (let n = unat a * 65536
      in [sextet (n div 262144), sextet (n div 4096), CHR ''='', CHR ''=''])"
| "base64_encode [a, b] =
     (let n = unat a * 65536 + unat b * 256
      in [sextet (n div 262144), sextet (n div 4096), sextet (n div 64), CHR ''=''])"
| "base64_encode (a # b # c # rest) =
     (let n = unat a * 65536 + unat b * 256 + unat c
      in [sextet (n div 262144), sextet (n div 4096), sextet (n div 64), sextet n]
         @ base64_encode rest)"

text \<open>
  \<^verbatim>\<open>createPremiumPlanSignature\<close>, lines 157 to 169. \<^verbatim>\<open>new URL\<close> throws on a string it
  cannot parse; \<^verbatim>\<open>clientSecret.replace\<close> is a \<^verbatim>\<open>TypeError\<close> when the secret is not a
  string; nothing else can fail.
\<close>

definition createPremiumPlanSignature :: "platform \<Rightarrow> string \<Rightarrow> jsval \<Rightarrow> error + string" where
  "createPremiumPlanSignature P unsignedUrl clientSecret =
     (case parseURL P unsignedUrl of
        None \<Rightarrow> Inl ERR_INVALID_URL
      | Some fullUrl \<Rightarrow>
          (let pathAndQuery = pathname fullUrl @ search fullUrl
           in case clientSecret of
                JStr secret \<Rightarrow>
                  (let unsafeClientSecret =
                         replace_all CHR ''_'' CHR ''/'' (replace_all CHR ''-'' CHR ''+'' secret);
                       decodedSecret = base64Decode P unsafeClientSecret;
                       unsafeSignature = base64_encode (hmacSha1 P decodedSecret pathAndQuery)
                   in Inr (replace_all CHR ''/'' CHR ''_''
                             (replace_all CHR ''+'' CHR ''-'' unsafeSignature)))
              | _ \<Rightarrow> Inl TypeError))"

section \<open>The query encoder\<close>

text \<open>
  \<^verbatim>\<open>serializer\<close> copies its argument and \<^verbatim>\<open>createPremiumPlanQueryString\<close> assigns to and
  deletes from the object it is given, so these two functions run on a store: the list
  of the objects allocated so far, an object's address being its position. A function
  takes the store and returns the store it leaves, also when it throws. The values of
  the properties are immutable data (the serializers of the table are pure functions
  of the value they are given, and \<^verbatim>\<open>stringify\<close> only reads its argument).
\<close>

type_synonym obj = "(string \<times> jsval) list"
type_synonym store = "obj list"
type_synonym serializerFormat = "(string \<times> (jsval \<Rightarrow> error + jsval)) list"

definition deref :: "store \<Rightarrow> nat \<Rightarrow> obj option" where
  "deref h a = (if a < length h then Some (h ! a) else None)"

text \<open>
  \<^verbatim>\<open>createPremiumPlanQueryString\<close>, lines 139 to 155, on the object at address \<open>a\<close>.
  An address that holds no object stands for a call with \<^verbatim>\<open>undefined\<close>.
\<close>

definition createPremiumPlanQueryString ::
  "platform \<Rightarrow> store \<Rightarrow> nat \<Rightarrow> jsval \<Rightarrow> string \<Rightarrow> store \<times> (error + string)" where
  "createPremiumPlanQueryString P h a queryStringOptions baseUrl =
     (case deref h a of
        None \<Rightarrow> (h, Inl TypeError)
      | Some serializedParams \<Rightarrow>
          (let p1 = set_prop ''client'' (get_prop ''client_id'' serializedParams) serializedParams;
               clientSecret = get_prop ''client_secret'' p1;
               p2 = delete_prop ''client_id'' p1;
               p3 = delete_prop ''client_secret'' p2;
               h' = h[a := p3]
           in case stringify P p3 queryStringOptions of
                Inl e \<Rightarrow> (h', Inl e)
              | Inr partialQueryString \<Rightarrow>
                  (let unsignedUrl = baseUrl @ ''?'' @ partialQueryString
                   in case createPremiumPlanSignature P unsignedUrl clientSecret of
                        Inl e \<Rightarrow> (h', Inl e)
                      | Inr signature \<Rightarrow>
                          (h', Inr (partialQueryString @ ''&signature='' @ signature)))))"

text \<open>
  The loop \<^verbatim>\<open>Object.keys(format).forEach(...)\<close> of lines 114 to 118 on the copy at
  address \<open>a\<close>: a serializer that throws ends it.
\<close>

fun apply_format :: "serializerFormat \<Rightarrow> store \<Rightarrow> nat \<Rightarrow> store \<times> (error + unit)" where
  "apply_format [] h a = (h, Inr ())"
| "apply_format ((key, f) # rest) h a =
     (case deref h a of
        None \<Rightarrow> (h, Inl TypeError)
      | Some serializedParams \<Rightarrow>
          if has_key key serializedParams then
            (case f (get_prop key serializedParams) of
               Inl e \<Rightarrow> (h, Inl e)
             | Inr v \<Rightarrow> apply_format rest (h[a := set_prop key v serializedParams]) a)
          else apply_format rest h a)"

definition default_queryStringOptions :: jsval where
  "default_queryStringOptions =
     JObj [(''arrayFormat'', JStr ''separator''), (''arrayFormatSeparator'', JStr separator)]"

text \<open>
  \<^verbatim>\<open>serializer\<close>, lines 102 to 127: the function it returns, applied to the object at
  address \<open>params\<close>. \<^verbatim>\<open>{ ...params }\<close> allocates the copy at the next free address.
\<close>

definition serializer ::
  "platform \<Rightarrow> serializerFormat \<Rightarrow> string \<Rightarrow> jsval \<Rightarrow> store \<Rightarrow> nat \<Rightarrow> store \<times> (error + string)" where
  "serializer P format baseUrl options h params =
     (let queryStringOptions = (if options = Undefined then default_queryStringOptions else options)
      in case deref h params of
           None \<Rightarrow> (h, Inl TypeError)
         | Some ps \<Rightarrow>
             (let a = length h;
                  h1 = h @ [ps]
              in case apply_format format h1 a of
                   (h2, Inl e) \<Rightarrow> (h2, Inl e)
                 | (h2, Inr u) \<Rightarrow>
                     (case deref h2 a of
                        None \<Rightarrow> (h2, Inl TypeError)
                      | Some serializedParams \<Rightarrow>
                          if has_key ''client_id'' serializedParams
                             \<and> has_key ''client_secret'' serializedParams
                          then createPremiumPlanQueryString P h2 a queryStringOptions baseUrl
                          else (h2, stringify P serializedParams queryStringOptions))))"

section \<open>Notions of the specification\<close>

text \<open>
  The translation between the standard and the URL-safe alphabet as the specification
  words it: one substitution of characters, \<^verbatim>\<open>+\<close> with \<^verbatim>\<open>-\<close> and \<^verbatim>\<open>/\<close> with \<^verbatim>\<open>_\<close>, and
  its reverse.
\<close>

definition to_urlsafe :: "string \<Rightarrow> string" where
  "to_urlsafe s =
     map (\<lambda>c. if c = CHR ''+'' then CHR ''-'' else if c = CHR ''/'' then CHR ''_'' else c) s"

definition from_urlsafe :: "string \<Rightarrow> string" where
  "from_urlsafe s =
     map (\<lambda>c. if c = CHR ''-'' then CHR ''+'' else if c = CHR ''_'' then CHR ''/'' else c) s"

definition urlsafe_alphabet :: string where
  "urlsafe_alphabet = ''ABCDEFGHIJKLMNOPQRSTUVWXYZabcdefghijklmnopqrstuvwxyz0123456789-_''"

text \<open>
  A text of URL-safe base64: characters of the URL-safe alphabet, followed by at most
  two padding characters.
\<close>

definition urlsafe_base64_text :: "string \<Rightarrow> bool" where
  "urlsafe_base64_text s =
     (let body = rev (dropWhile (\<lambda>c. c = CHR ''='') (rev s))
      in length s - length body \<le> 2 \<and> list_all (\<lambda>c. c \<in> set urlsafe_alphabet) body)"

text \<open>
  Valid (standard) base64: a multiple of four characters of the alphabet, the last one
  or two of which may be padding.
\<close>

definition valid_base64 :: "string \<Rightarrow> bool" where
  "valid_base64 s =
     (let body = rev (dropWhile (\<lambda>c. c = CHR ''='') (rev s))
      in length s mod 4 = 0 \<and> length s - length body \<le> 2
         \<and> list_all (\<lambda>c. c \<in> set base64_alphabet) body)"

text \<open>Seconds with the part below one second dropped, as the specification words it.\<close>

definition truncated_seconds :: "int \<Rightarrow> int" where
  "truncated_seconds ms = (if 0 \<le> ms then ms div 1000 else - ((- ms) div 1000))"

text \<open>
  The four coordinate shapes, as the module tests them, and the two components a shape
  holds (a string holds none apart).
\<close>

definition coordinate_shape :: "jsval \<Rightarrow> bool" where
  "coordinate_shape v =
     (case v of
        JStr s \<Rightarrow> True
      | JArr xs \<Rightarrow> length xs = 2
      | JObj kvs \<Rightarrow>
          (has_key ''lat'' kvs \<and> has_key ''lng'' kvs)
          \<or> (has_key ''latitude'' kvs \<and> has_key ''longitude'' kvs)
      | _ \<Rightarrow> False)"

definition coordinate_parts :: "jsval \<Rightarrow> jsval list" where
  "coordinate_parts v =
     (case v of
        JArr xs \<Rightarrow> xs
      | JObj kvs \<Rightarrow>
          if has_key ''lat'' kvs \<and> has_key ''lng'' kvs
          then [get_prop ''lat'' kvs, get_prop ''lng'' kvs]
          else [get_prop ''latitude'' kvs, get_prop ''longitude'' kvs]
      | _ \<Rightarrow> [])"


text \<open>A component as the type \<^verbatim>\<open>LatLng\<close> has it, or as a numeric string.\<close>

definition number_or_string :: "jsval \<Rightarrow> bool" where
  "number_or_string x = (case x of JNum n \<Rightarrow> True | JStr s \<Rightarrow> True | _ \<Rightarrow> False)"




definition unreserved :: string where
  "unreserved = ''ABCDEFGHIJKLMNOPQRSTUVWXYZabcdefghijklmnopqrstuvwxyz0123456789-_.~''"


definition nullish :: "jsval \<Rightarrow> bool" where
  "nullish v = (v = Undefined \<or> v = Null)"

section \<open>A concrete platform for the examples\<close>

text \<open>
  The theorems below hold for every platform. Their instances at concrete inputs need
  one: small stand-ins that are enough to compute with. Numbers print in decimal when
  they are natural numbers; a string converts to a number when it is a run of digits;
  the path encoding is one letter for each point; the query string is built as the
  package \<^verbatim>\<open>query-string\<close> builds it under the options of the module (keys in
  ascending order, a field \<^verbatim>\<open>key=value\<close> percent-encoded for each, none for a value
  \<^verbatim>\<open>undefined\<close>, the bare key for \<^verbatim>\<open>null\<close>, the elements of an array joined by
  \<^verbatim>\<open>|\<close>, the fields joined by \<^verbatim>\<open>&\<close>); the parser reads
  \<^verbatim>\<open>https://host/path?query\<close>; the decoder skips what is not in the alphabet and stops
  at the padding; the keyed hash is the first twenty bytes of key and message.
\<close>

definition sample_ToString :: "jsval \<Rightarrow> string" where
  "sample_ToString v =
     (case v of
        JNum (Fin r) \<Rightarrow> if r = of_nat (nat \<lfloor>r\<rfloor>) then show_nat (nat \<lfloor>r\<rfloor>) else ''#''
      | JNum NaN \<Rightarrow> ''NaN''
      | JBool b \<Rightarrow> if b then ''true'' else ''false''
      | Undefined \<Rightarrow> ''undefined''
      | Null \<Rightarrow> ''null''
      | JStr s \<Rightarrow> s
      | _ \<Rightarrow> ''#'')"

definition digit_value :: "char \<Rightarrow> nat" where
  "digit_value c = of_char c - 48"

definition sample_ToNumber :: "jsval \<Rightarrow> jsnum" where
  "sample_ToNumber v =
     (case v of
        JNum n \<Rightarrow> n
      | JStr s \<Rightarrow>
          if s \<noteq> [] \<and> list_all (\<lambda>c. CHR ''0'' \<le> c \<and> c \<le> CHR ''9'') s
          then Fin (of_nat (foldl (\<lambda>n c. 10 * n + digit_value c) 0 s))
          else NaN
      | _ \<Rightarrow> NaN)"

definition hex_digits :: string where
  "hex_digits = ''0123456789ABCDEF''"

definition hex_digit :: "nat \<Rightarrow> char" where
  "hex_digit n = hex_digits ! (n mod 16)"

definition encode_char :: "char \<Rightarrow> string" where
  "encode_char c =
     (if c \<in> set unreserved then [c]
      else [CHR ''%'', hex_digit (of_char c div 16), hex_digit (of_char c)])"

definition uri_encode :: "string \<Rightarrow> string" where
  "uri_encode s = concat (map encode_char s)"

definition sample_entry :: "(string \<times> jsval) list \<Rightarrow> string \<Rightarrow> string" where
  "sample_entry kvs k =
     (case get_prop k kvs of
        Undefined \<Rightarrow> []
      | Null \<Rightarrow> uri_encode k
      | JArr xs \<Rightarrow>
          (let vs = filter (\<lambda>x. x \<noteq> Undefined) xs
           in if vs = [] then []
              else uri_encode k @ ''='' @
                   join ''|'' (map (\<lambda>x. if x = Null then [] else uri_encode (sample_ToString x)) vs))
      | v \<Rightarrow> uri_encode k @ ''='' @ uri_encode (sample_ToString v))"

definition sample_stringify :: "(string \<times> jsval) list \<Rightarrow> jsval \<Rightarrow> error + string" where
  "sample_stringify kvs opts =
     Inr (join ''&'' (filter (\<lambda>e. e \<noteq> []) (map (sample_entry kvs) (sort (map fst kvs)))))"

definition sample_parseURL :: "string \<Rightarrow> url option" where
  "sample_parseURL u =
     (if take 8 u = ''https://'' then
        (let rest = drop 8 u;
             h = takeWhile (\<lambda>c. c \<noteq> CHR ''/'' \<and> c \<noteq> CHR ''?'') rest;
             pq = dropWhile (\<lambda>c. c \<noteq> CHR ''/'' \<and> c \<noteq> CHR ''?'') rest;
             p = takeWhile (\<lambda>c. c \<noteq> CHR ''?'') pq;
             q = dropWhile (\<lambda>c. c \<noteq> CHR ''?'') pq
         in if h = [] then None
            else Some \<lparr>protocol = ''https:'', host = h,
                       pathname = (if p = [] then ''/'' else p),
                       search = (if q = ''?'' then [] else q),
                       hash = []\<rparr>)
      else None)"

fun position :: "char \<Rightarrow> string \<Rightarrow> nat" where
  "position c [] = 0"
| "position c (d # ds) = (if c = d then 0 else Suc (position c ds))"

fun sextets_to_bytes :: "nat list \<Rightarrow> byte list" where
  "sextets_to_bytes (a # b # c # d # rest) =
     [of_nat (a * 4 + b div 16), of_nat (b mod 16 * 16 + c div 4), of_nat (c mod 4 * 64 + d)]
     @ sextets_to_bytes rest"
| "sextets_to_bytes [a, b, c] = [of_nat (a * 4 + b div 16), of_nat (b mod 16 * 16 + c div 4)]"
| "sextets_to_bytes [a, b] = [of_nat (a * 4 + b div 16)]"
| "sextets_to_bytes _ = []"

definition sample_base64Decode :: "string \<Rightarrow> byte list" where
  "sample_base64Decode s =
     sextets_to_bytes
       (map (\<lambda>c. position c base64_alphabet)
          (filter (\<lambda>c. c \<in> set base64_alphabet) (takeWhile (\<lambda>c. c \<noteq> CHR ''='') s)))"

definition sample_hmac :: "byte list \<Rightarrow> string \<Rightarrow> byte list" where
  "sample_hmac k m = take 20 (k @ map (\<lambda>c. of_nat (of_char c)) m @ replicate 20 0)"

definition sample_platform :: platform where
  "sample_platform =
     \<lparr>ToString = sample_ToString,
      ToNumber = sample_ToNumber,
      encodePath = (\<lambda>points. replicate (length points) CHR ''p''),
      stringify = sample_stringify,
      parseURL = sample_parseURL,
      base64Decode = sample_base64Decode,
      hmacSha1 = sample_hmac\<rparr>"

section \<open>Facts about the primitives\<close>

lemma split_on_nonempty: "split_on sep s \<noteq> []"
  by (induction s) (auto split: list.splits)

lemma split_on_absent: "sep \<notin> set s \<Longrightarrow> split_on sep s = [s]"
  by (induction s) auto

text \<open>The name of an array index is made of digits, so no index is called \<^verbatim>\<open>lat\<close>.\<close>

lemma digit_char_below: "of_char (digit_char n) < (58::nat)"
proof -
  have "n mod 10 < length ''0123456789''"
    by simp
  then have "digit_char n \<in> set ''0123456789''"
    unfolding digit_char_def by (rule nth_mem)
  then show ?thesis
    by auto
qed

lemma show_nat_digits: "c \<in> set (show_nat n) \<Longrightarrow> of_char c < (58::nat)"
proof (induction n rule: show_nat.induct)
  case (1 n)
  show ?case
  proof (cases "n < 10")
    case True
    with "1.prems" show ?thesis
      by (simp add: show_nat.simps [of n] digit_char_below)
  next
    case False
    with "1.prems" "1.IH" show ?thesis
      by (auto simp add: show_nat.simps [of n] digit_char_below)
  qed
qed

lemma show_nat_not_letter: "58 \<le> (of_char c :: nat) \<Longrightarrow> c # cs \<noteq> show_nat n"
  using show_nat_digits [of c n] by (metis list.set_intros(1) not_le)

lemma array_has_no_named_key:
  "58 \<le> (of_char c :: nat) \<Longrightarrow> \<not> has_key (c # cs) (zip (map show_nat ns) xs)"
  unfolding has_key_def
  by (auto dest!: set_zip_leftD simp: show_nat_not_letter)

lemma isl_map_throwing: "isl (map_throwing f xs) = (\<exists>x\<in>set xs. isl (f x))"
  by (induction xs) (auto split: sum.splits simp: isl_def)

lemma isl_method_toString: "isl (method_toString P x) = (nullish x \<or> \<not> convertible x)"
  by (cases x) (simp_all add: method_toString_def nullish_def)

lemma isl_call_Number: "isl (call_Number P x) = (\<not> convertible x)"
  by (simp add: call_Number_def)

lemma isl_render_pair: "isl (render_pair P xs) = (\<exists>x\<in>set xs. nullish x \<or> \<not> convertible x)"
  using isl_map_throwing [of "method_toString P" xs]
  by (auto simp: render_pair_def isl_method_toString split: sum.splits)

lemma number_or_string_converts: "number_or_string x \<Longrightarrow> \<not> nullish x \<and> convertible x"
  by (cases x) (simp_all add: number_or_string_def nullish_def)

lemma map_throwing_TypeError:
  "(\<And>x e. f x = Inl e \<Longrightarrow> e = TypeError) \<Longrightarrow> map_throwing f xs = Inl e \<Longrightarrow> e = TypeError"
  by (induction xs arbitrary: e) (auto split: sum.splits)

lemma render_pair_TypeError: "render_pair P xs = Inl e \<Longrightarrow> e = TypeError"
proof -
  assume r: "render_pair P xs = Inl e"
  have m: "method_toString P x = Inl e' \<Longrightarrow> e' = TypeError" for x e'
    by (cases x) (auto simp: method_toString_def split: if_splits)
  from r have "map_throwing (method_toString P) xs = Inl e"
    by (auto simp: render_pair_def split: sum.splits)
  with m show ?thesis
    by (rule map_throwing_TypeError)
qed

lemma js_in_TypeError: "js_in k v = Inl e \<Longrightarrow> e = TypeError"
  by (cases v) auto

lemma in_both_TypeError: "in_both a b v = Inl e \<Longrightarrow> e = TypeError"
  by (auto simp: in_both_def split: sum.splits bool.splits dest: js_in_TypeError)

section \<open>Timestamps\<close>

lemma whole_thousands: "((x::int) = x div 1000 * 1000) = (x mod 1000 = 0)"
  using div_mult_mod_eq [of x 1000] by linarith

lemma truncated_seconds_exact: "(ms = truncated_seconds ms * 1000) = (ms mod 1000 = 0)"
proof (cases "0 \<le> ms")
  case True
  then show ?thesis
    by (simp add: truncated_seconds_def whole_thousands [symmetric])
next
  case False
  have "(ms = - ((- ms) div 1000) * 1000) = (- ms = (- ms) div 1000 * 1000)"
    by linarith
  also have "\<dots> = ((- ms) mod 1000 = 0)"
    by (rule whole_thousands)
  also have "\<dots> = (ms mod 1000 = 0)"
    by (simp only: mod_eq_0_iff_dvd dvd_minus_iff)
  finally show ?thesis
    using False by (simp add: truncated_seconds_def)
qed

lemma rat_thousands: "((of_int ms :: rat) = of_int k * 1000) = (ms = k * 1000)"
proof -
  have "(of_int k :: rat) * 1000 = of_int (k * 1000)"
    by simp
  then show ?thesis
    by (simp only: of_int_eq_iff)
qed

text \<open>
  C6, as the claim states it, fails: a date is not truncated to whole seconds. The
  date of 1500 milliseconds gives 3/2, where truncation would give 1.
\<close>

theorem toTimestamp_truncation_counterexample:
  "toTimestamp (JDate (Some 1500)) = JNum (Fin (3 / 2))
   \<and> toTimestamp (JDate (Some 1500)) \<noteq> JNum (Fin (of_int (truncated_seconds 1500)))"
  by (simp add: toTimestamp_def date_value_def div1000_def truncated_seconds_def)

text \<open>
  C6, amended: \<^verbatim>\<open>"now"\<close> and every number are returned unchanged; a date gives its
  time value in milliseconds divided by 1000, with the fraction of a second kept, which
  is the truncated number of seconds exactly when the date falls on a whole second; the
  date of time 0 gives 0.
\<close>

theorem toTimestamp_exact_quotient:
  "toTimestamp (JStr ''now'') = JStr ''now''
   \<and> toTimestamp (JNum n) = JNum n
   \<and> toTimestamp (JDate (Some ms)) = JNum (Fin (of_int ms / 1000))
   \<and> (toTimestamp (JDate (Some ms)) = JNum (Fin (of_int (truncated_seconds ms)))) = (ms mod 1000 = 0)
   \<and> toTimestamp (JDate (Some 0)) = JNum (Fin 0)"
  by (simp add: toTimestamp_def date_value_def div1000_def rat_thousands truncated_seconds_exact)

theorem toTimestamp_exact_quotient_witness:
  "toTimestamp (JDate (Some 2500)) = JNum (Fin (5 / 2))
   \<and> toTimestamp (JDate (Some 3000)) = JNum (Fin 3)
   \<and> toTimestamp (JNum (Fin 1500)) = JNum (Fin 1500)"
  using toTimestamp_exact_quotient [of "Fin 1500" 2500] toTimestamp_exact_quotient [of "Fin 1500" 3000]
  by simp

section \<open>Coordinate shapes\<close>

lemma latLngToString_no_shape:
  "\<not> coordinate_shape v \<Longrightarrow> latLngToString P v = Inl TypeError"
  by (cases v)
    (auto simp: coordinate_shape_def latLngToString_def is_array2_def in_both_def
      array_has_no_named_key split: sum.splits bool.splits)

lemma toLatLngLiteral_no_shape:
  "\<not> coordinate_shape v \<Longrightarrow> toLatLngLiteral P v = Inl TypeError"
  by (cases v)
    (auto simp: coordinate_shape_def toLatLngLiteral_def is_array2_def in_both_def
      array_has_no_named_key split: sum.splits bool.splits)

lemma toLatLngLiteral_shape:
  "coordinate_shape v \<Longrightarrow>
   isl (toLatLngLiteral P v) = (is_array2 v \<and> (\<exists>x\<in>set (coordinate_parts v). \<not> convertible x))"
proof (cases v)
  case (JArr xs)
  assume "coordinate_shape v"
  with JArr have two: "length xs = 2"
    by (simp add: coordinate_shape_def)
  have "isl (map_throwing (call_Number P) xs) = (\<exists>x\<in>set xs. \<not> convertible x)"
    by (simp add: isl_map_throwing isl_call_Number)
  with JArr two show ?thesis
    by (auto simp: toLatLngLiteral_def is_array2_def elements_def coordinate_parts_def
        split: sum.splits)
qed (auto simp: coordinate_shape_def toLatLngLiteral_def is_array2_def in_both_def Let_def
      split: sum.splits bool.splits)

lemma latLngToString_shape:
  "coordinate_shape v \<Longrightarrow>
   isl (latLngToString P v) = (\<exists>x\<in>set (coordinate_parts v). nullish x \<or> \<not> convertible x)"
  by (cases v)
    (auto simp: coordinate_shape_def coordinate_parts_def latLngToString_def is_array2_def
      in_both_def elements_def read_prop_def isl_render_pair split: sum.splits bool.splits)

lemma latLngToString_TypeError: "latLngToString P v = Inl e \<Longrightarrow> e = TypeError"
  by (cases v)
    (auto simp: latLngToString_def split: if_splits sum.splits bool.splits
      dest: render_pair_TypeError in_both_TypeError)

lemma toLatLngLiteral_TypeError: "toLatLngLiteral P v = Inl e \<Longrightarrow> e = TypeError"
proof -
  assume r: "toLatLngLiteral P v = Inl e"
  have n: "call_Number P x = Inl e' \<Longrightarrow> e' = TypeError" for x e'
    by (auto simp: call_Number_def split: if_splits)
  have m: "map_throwing (call_Number P) xs = Inl e' \<Longrightarrow> e' = TypeError" for xs e'
    using n by (rule map_throwing_TypeError)
  from r show ?thesis
    by (cases v)
      (auto simp: toLatLngLiteral_def Let_def split: if_splits sum.splits bool.splits
        dest: m in_both_TypeError)
qed

text \<open>
  C7, as the claim states it, fails on its second half: the pair \<^verbatim>\<open>[null, 1]\<close> is a
  two-element array, and \<^verbatim>\<open>latLngToString\<close> raises on it, because \<^verbatim>\<open>null\<close> has no
  method \<^verbatim>\<open>toString\<close>.
\<close>

theorem null_component_counterexample:
  "coordinate_shape (JArr [Null, JNum (Fin 1)])
   \<and> latLngToString sample_platform (JArr [Null, JNum (Fin 1)]) = Inl TypeError"
  by (simp add: coordinate_shape_def latLngToString_def is_array2_def elements_def
      render_pair_def method_toString_def)

text \<open>
  C7, amended: for every value that matches none of the four coordinate shapes, both
  \<^verbatim>\<open>latLngToString\<close> and \<^verbatim>\<open>toLatLngLiteral\<close> fail with a \<^verbatim>\<open>TypeError\<close>. For a value
  that matches one of them the shape is accepted, and a function raises exactly when
  the conversion of a component raises: \<^verbatim>\<open>latLngToString\<close> when \<^verbatim>\<open>x.toString()\<close> raises
  for one of the two components (\<^verbatim>\<open>null\<close>, \<^verbatim>\<open>undefined\<close>, or a value that does not
  convert, such as an object whose \<^verbatim>\<open>toString\<close> is not callable), \<^verbatim>\<open>toLatLngLiteral\<close>
  when the value is a two-element array and \<^verbatim>\<open>Number(x)\<close> raises for one of its
  components. Neither raises when both components are numbers or strings, and whatever
  either raises is a \<^verbatim>\<open>TypeError\<close>.
\<close>

theorem coordinate_shape_errors:
  "(\<not> coordinate_shape v \<longrightarrow>
      latLngToString P v = Inl TypeError \<and> toLatLngLiteral P v = Inl TypeError)
   \<and> (coordinate_shape v \<longrightarrow>
        isl (latLngToString P v) = (\<exists>x\<in>set (coordinate_parts v). isl (method_toString P x))
        \<and> isl (toLatLngLiteral P v)
            = (is_array2 v \<and> (\<exists>x\<in>set (coordinate_parts v). isl (call_Number P x)))
        \<and> ((\<forall>x\<in>set (coordinate_parts v). number_or_string x) \<longrightarrow>
             \<not> isl (latLngToString P v) \<and> \<not> isl (toLatLngLiteral P v)))
   \<and> (\<forall>x. isl (method_toString P x) = (nullish x \<or> \<not> convertible x))
   \<and> (\<forall>x. isl (call_Number P x) = (\<not> convertible x))
   \<and> (latLngToString P v = Inl e \<longrightarrow> e = TypeError)
   \<and> (toLatLngLiteral P v = Inl e \<longrightarrow> e = TypeError)"
proof -
  have none: "\<not> coordinate_shape v \<longrightarrow>
      latLngToString P v = Inl TypeError \<and> toLatLngLiteral P v = Inl TypeError"
    using latLngToString_no_shape [of v P] toLatLngLiteral_no_shape [of v P] by blast
  have some: "coordinate_shape v \<longrightarrow>
        isl (latLngToString P v) = (\<exists>x\<in>set (coordinate_parts v). isl (method_toString P x))
        \<and> isl (toLatLngLiteral P v)
            = (is_array2 v \<and> (\<exists>x\<in>set (coordinate_parts v). isl (call_Number P x)))
        \<and> ((\<forall>x\<in>set (coordinate_parts v). number_or_string x) \<longrightarrow>
             \<not> isl (latLngToString P v) \<and> \<not> isl (toLatLngLiteral P v))"
    using latLngToString_shape [of v P] toLatLngLiteral_shape [of v P] number_or_string_converts
    by (auto simp: isl_method_toString isl_call_Number)
  have conv: "(\<forall>x. isl (method_toString P x) = (nullish x \<or> \<not> convertible x))
      \<and> (\<forall>x. isl (call_Number P x) = (\<not> convertible x))"
    by (simp add: isl_method_toString isl_call_Number)
  have errs: "(latLngToString P v = Inl e \<longrightarrow> e = TypeError)
      \<and> (toLatLngLiteral P v = Inl e \<longrightarrow> e = TypeError)"
    using latLngToString_TypeError [of P v e] toLatLngLiteral_TypeError [of P v e] by blast
  show ?thesis
    using none some conv errs by (intro conjI) blast+
qed

theorem coordinate_shape_errors_witness:
  "latLngToString sample_platform (JObj [(''foo'', JNum (Fin 1))]) = Inl TypeError
   \<and> toLatLngLiteral sample_platform (JObj [(''lat'', JNum (Fin 1))]) = Inl TypeError
   \<and> \<not> isl (toLatLngLiteral sample_platform (JArr [JNum (Fin 1), JNum (Fin 2)]))
   \<and> \<not> isl (latLngToString sample_platform (JArr [JNum (Fin 1), JNum (Fin 2)]))
   \<and> isl (latLngToString sample_platform (JArr [JObj [(''toString'', JNum (Fin 1))], JNum (Fin 2)]))
   \<and> isl (toLatLngLiteral sample_platform (JArr [JObj [(''toString'', JNum (Fin 1))], JNum (Fin 2)]))
   \<and> \<not> isl (toLatLngLiteral sample_platform (JArr [Null, JNum (Fin 2)]))"
  using coordinate_shape_errors [of "JObj [(''foo'', JNum (Fin 1))]" sample_platform]
    coordinate_shape_errors [of "JObj [(''lat'', JNum (Fin 1))]" sample_platform]
    coordinate_shape_errors [of "JArr [JNum (Fin 1), JNum (Fin 2)]" sample_platform]
    coordinate_shape_errors [of "JArr [JObj [(''toString'', JNum (Fin 1))], JNum (Fin 2)]" sample_platform]
    coordinate_shape_errors [of "JArr [Null, JNum (Fin 2)]" sample_platform]
  by (simp add: coordinate_shape_def coordinate_parts_def is_array2_def has_key_def nullish_def
      number_or_string_def isl_method_toString isl_call_Number)

text \<open>
  C10, as the claim states it, fails in one detail: the component of a missing part is
  \<^verbatim>\<open>undefined\<close>, not \<^verbatim>\<open>NaN\<close>. The string \<^verbatim>\<open>"abc"\<close> has no second part, and
  \<^verbatim>\<open>Number\<close> is never applied to it.
\<close>

theorem missing_part_counterexample:
  "toLatLngLiteral sample_platform (JStr ''abc'') = Inr (JObj [(''lat'', JNum NaN), (''lng'', Undefined)])
   \<and> toLatLngLiteral sample_platform (JStr ''abc'') \<noteq> Inr (JObj [(''lat'', JNum NaN), (''lng'', JNum NaN)])"
  by (simp add: toLatLngLiteral_def literal_def index_def sample_platform_def sample_ToNumber_def
      less_eq_char_def)

text \<open>
  C10, amended: a string is never checked for its shape. For every string \<open>s\<close>,
  \<^verbatim>\<open>latLngToString\<close> returns \<open>s\<close> unchanged, and \<^verbatim>\<open>toLatLngLiteral\<close> returns the record
  whose \<^verbatim>\<open>lat\<close> is \<^verbatim>\<open>Number\<close> of the first comma-separated part and whose \<^verbatim>\<open>lng\<close> is
  \<^verbatim>\<open>Number\<close> of the second part when there is one and \<^verbatim>\<open>undefined\<close> when \<open>s\<close> has no
  comma; neither function raises on a string, so a \<^verbatim>\<open>TypeError\<close> is reachable only for
  an input that is not a string.
\<close>

theorem string_coordinates_never_rejected:
  "latLngToString P (JStr s) = Inr s
   \<and> (\<exists>p ps. split_on CHR '','' s = p # ps
        \<and> toLatLngLiteral P (JStr s) =
            Inr (literal (JNum (ToNumber P (JStr p)))
                   (case ps of [] \<Rightarrow> Undefined | q # qs \<Rightarrow> JNum (ToNumber P (JStr q)))))
   \<and> (CHR '','' \<notin> set s \<longrightarrow>
        toLatLngLiteral P (JStr s) = Inr (literal (JNum (ToNumber P (JStr s))) Undefined))
   \<and> (isl (latLngToString P v) \<or> isl (toLatLngLiteral P v) \<longrightarrow> (\<forall>t. v \<noteq> JStr t))"
proof -
  obtain p ps where parts: "split_on CHR '','' s = p # ps"
    using split_on_nonempty [of "CHR '',''" s] by (cases "split_on CHR '','' s") auto
  have lit: "toLatLngLiteral P (JStr s) =
      Inr (literal (JNum (ToNumber P (JStr p)))
             (case ps of [] \<Rightarrow> Undefined | q # qs \<Rightarrow> JNum (ToNumber P (JStr q))))"
    by (cases ps) (simp_all add: toLatLngLiteral_def parts index_def)
  have one: "CHR '','' \<notin> set s \<longrightarrow>
      toLatLngLiteral P (JStr s) = Inr (literal (JNum (ToNumber P (JStr s))) Undefined)"
    by (simp add: toLatLngLiteral_def split_on_absent index_def)
  have str: "isl (latLngToString P v) \<or> isl (toLatLngLiteral P v) \<longrightarrow> (\<forall>t. v \<noteq> JStr t)"
    by (auto simp: latLngToString_def toLatLngLiteral_def Let_def)
  show ?thesis
    using parts lit one str by (simp add: latLngToString_def)
qed

theorem string_coordinates_never_rejected_witness:
  "latLngToString sample_platform (JStr ''not a coordinate'') = Inr ''not a coordinate''
   \<and> toLatLngLiteral sample_platform (JStr ''12,34'') =
       Inr (JObj [(''lat'', JNum (Fin 12)), (''lng'', JNum (Fin 34))])
   \<and> toLatLngLiteral sample_platform (JStr ''7'') =
       Inr (JObj [(''lat'', JNum (Fin 7)), (''lng'', Undefined)])"
  using string_coordinates_never_rejected [of sample_platform "''not a coordinate''"]
    string_coordinates_never_rejected [of sample_platform "''12,34''"]
    string_coordinates_never_rejected [of sample_platform "''7''"]
  by (simp add: literal_def sample_platform_def sample_ToNumber_def digit_value_def
      less_eq_char_def)

section \<open>Objects as strings\<close>





section \<open>Coordinate sequences\<close>

lemma map_throwing_all:
  "list_all2 (\<lambda>x y. f x = Inr y) xs ys \<Longrightarrow> map_throwing f xs = Inr ys"
  by (induction rule: list_all2_induct) simp_all

text \<open>
  C4: for every list of coordinates, with \<open>concatenated\<close> the outputs of
  \<^verbatim>\<open>latLngToString\<close> for each coordinate joined by \<^verbatim>\<open>|\<close> and \<open>encoded\<close> the path
  encoding of the normalized coordinates after the marker \<^verbatim>\<open>enc:\<close>,
  \<^verbatim>\<open>latLngArrayToStringMaybeEncoded\<close> returns \<open>encoded\<close> exactly when it is strictly
  shorter than \<open>concatenated\<close> and \<open>concatenated\<close> otherwise, ties included; the result
  is as long as the shorter of the two. A string is returned unchanged.
\<close>

theorem latLngArrayToStringMaybeEncoded_shorter:
  assumes "list_all2 (\<lambda>x y. latLngToString P x = Inr y) xs strs"
    and "list_all2 (\<lambda>x y. toLatLngLiteral P x = Inr y) xs literals"
    and "concatenated = join ''|'' strs"
    and "encoded = ''enc:'' @ encodePath P literals"
  shows "latLngArrayToStringMaybeEncoded P (JArr xs) =
           Inr (if length encoded < length concatenated then encoded else concatenated)
         \<and> (\<forall>r. latLngArrayToStringMaybeEncoded P (JArr xs) = Inr r \<longrightarrow>
               (r = encoded \<or> r = concatenated)
               \<and> length r = min (length encoded) (length concatenated))
         \<and> latLngArrayToStringMaybeEncoded P (JStr s) = Inr s"
proof -
  have a: "map_throwing (latLngToString P) xs = Inr strs"
    using assms(1) by (rule map_throwing_all)
  have b: "map_throwing (toLatLngLiteral P) xs = Inr literals"
    using assms(2) by (rule map_throwing_all)
  have c: "latLngArrayToStringMaybeEncoded P (JArr xs) =
      Inr (if length encoded < length concatenated then encoded else concatenated)"
    using assms(3,4) by (simp add: latLngArrayToStringMaybeEncoded_def a b separator_def)
  show ?thesis
    unfolding c by (auto simp: latLngArrayToStringMaybeEncoded_def)
qed

theorem latLngArrayToStringMaybeEncoded_shorter_witness:
  "latLngArrayToStringMaybeEncoded sample_platform
     (JArr [JArr [JNum (Fin 38), JNum (Fin 120)], JObj [(''lat'', JNum (Fin 40)), (''lng'', JNum (Fin 121))]])
   = Inr ''enc:pp''
   \<and> latLngArrayToStringMaybeEncoded sample_platform (JArr [JStr ''1,2'']) = Inr ''1,2''
   \<and> latLngArrayToStringMaybeEncoded sample_platform (JArr [JStr ''12345'']) = Inr ''12345''"
  using latLngArrayToStringMaybeEncoded_shorter
    [of sample_platform "[JArr [JNum (Fin 38), JNum (Fin 120)], JObj [(''lat'', JNum (Fin 40)), (''lng'', JNum (Fin 121))]]"
        "[''38,120'', ''40,121'']"
        "[JObj [(''lat'', JNum (Fin 38)), (''lng'', JNum (Fin 120))], JObj [(''lat'', JNum (Fin 40)), (''lng'', JNum (Fin 121))]]"
        "''38,120|40,121''" "''enc:pp''"]
  by (simp add: latLngArrayToStringMaybeEncoded_def latLngToString_def toLatLngLiteral_def
      is_array2_def elements_def in_both_def has_key_def read_prop_def get_prop_def render_pair_def
      method_toString_def call_Number_def coerce_string_def literal_def index_def separator_def
      sample_platform_def sample_ToString_def sample_ToNumber_def show_nat.simps digit_char_def
      less_eq_char_def digit_value_def)

section \<open>The signature\<close>

lemma replace_to_urlsafe:
  "replace_all CHR ''/'' CHR ''_'' (replace_all CHR ''+'' CHR ''-'' s) = to_urlsafe s"
  by (induction s) (simp_all add: replace_all_def to_urlsafe_def)

lemma replace_from_urlsafe:
  "replace_all CHR ''_'' CHR ''/'' (replace_all CHR ''-'' CHR ''+'' s) = from_urlsafe s"
  by (induction s) (simp_all add: replace_all_def from_urlsafe_def)

lemma createPremiumPlanSignature_parsed:
  "parseURL P u = Some url \<Longrightarrow>
   createPremiumPlanSignature P u (JStr s) =
     Inr (to_urlsafe (base64_encode
       (hmacSha1 P (base64Decode P (from_urlsafe s)) (pathname url @ search url))))"
  by (simp add: createPremiumPlanSignature_def replace_to_urlsafe replace_from_urlsafe)

lemma createPremiumPlanSignature_unparsed:
  "parseURL P u = None \<Longrightarrow> createPremiumPlanSignature P u secret = Inl ERR_INVALID_URL"
  by (simp add: createPremiumPlanSignature_def)

lemma sextet_in_alphabet: "sextet n \<in> set base64_alphabet"
proof -
  have "n mod 64 < length base64_alphabet"
    by (simp add: base64_alphabet_def)
  then show ?thesis
    unfolding sextet_def by (rule nth_mem)
qed

lemma base64_encode_shape:
  "\<exists>body pad. base64_encode bs = body @ pad \<and> set body \<subseteq> set base64_alphabet
     \<and> (pad = [] \<or> pad = ''='' \<or> pad = ''=='')"
proof (induction bs rule: base64_encode.induct)
  case 1
  show ?case by simp
next
  case (2 a)
  have "base64_encode [a] = [sextet (unat a * 65536 div 262144), sextet (unat a * 65536 div 4096)] @ ''==''"
    by (simp add: Let_def)
  moreover have "set [sextet (unat a * 65536 div 262144), sextet (unat a * 65536 div 4096)] \<subseteq> set base64_alphabet"
    by (simp add: sextet_in_alphabet)
  ultimately show ?case by blast
next
  case (3 a b)
  let ?n = "unat a * 65536 + unat b * 256"
  have "base64_encode [a, b] = [sextet (?n div 262144), sextet (?n div 4096), sextet (?n div 64)] @ ''=''"
    by (simp add: Let_def)
  moreover have "set [sextet (?n div 262144), sextet (?n div 4096), sextet (?n div 64)] \<subseteq> set base64_alphabet"
    by (simp add: sextet_in_alphabet)
  ultimately show ?case by blast
next
  case (4 a b c rest)
  then obtain body pad where r: "base64_encode rest = body @ pad"
    "set body \<subseteq> set base64_alphabet" "pad = [] \<or> pad = ''='' \<or> pad = ''==''"
    by blast
  let ?n = "unat a * 65536 + unat b * 256 + unat c"
  let ?q = "[sextet (?n div 262144), sextet (?n div 4096), sextet (?n div 64), sextet ?n]"
  have "base64_encode (a # b # c # rest) = (?q @ body) @ pad"
    using r(1) by (simp add: Let_def)
  moreover have "set (?q @ body) \<subseteq> set base64_alphabet"
    using r(2) by (simp add: sextet_in_alphabet)
  ultimately show ?case using r(3) by blast
qed

lemma urlsafe_char:
  "c \<in> set base64_alphabet \<Longrightarrow>
   (if c = CHR ''+'' then CHR ''-'' else if c = CHR ''/'' then CHR ''_'' else c) \<in> set urlsafe_alphabet"
  by (auto simp: base64_alphabet_def urlsafe_alphabet_def)

lemma to_urlsafe_alphabet:
  assumes "set body \<subseteq> set base64_alphabet"
  shows "set (to_urlsafe body) \<subseteq> set urlsafe_alphabet"
proof -
  define f where "f = (\<lambda>c. if c = CHR ''+'' then CHR ''-'' else if c = CHR ''/'' then CHR ''_'' else c)"
  have m: "to_urlsafe body = map f body"
    by (simp add: to_urlsafe_def f_def)
  have "f c \<in> set urlsafe_alphabet" if "c \<in> set body" for c
    using urlsafe_char [of c] that assms unfolding f_def by blast
  then show ?thesis
    unfolding m by auto
qed

lemma to_urlsafe_padding:
  "pad = [] \<or> pad = ''='' \<or> pad = ''=='' \<Longrightarrow> to_urlsafe (body @ pad) = to_urlsafe body @ pad"
  by (auto simp: to_urlsafe_def)

lemma padded_text:
  assumes "set body \<subseteq> set urlsafe_alphabet" and "pad = [] \<or> pad = ''='' \<or> pad = ''==''"
  shows "urlsafe_base64_text (body @ pad)"
proof -
  let ?eq = "\<lambda>c. c = CHR ''=''"
  have no_eq: "\<not> ?eq c" if "c \<in> set body" for c
    using that assms(1) by (auto simp: urlsafe_alphabet_def)
  have "dropWhile ?eq (rev (body @ pad)) = dropWhile ?eq (rev body)"
    using assms(2) by auto
  also have "\<dots> = rev body"
  proof (cases "rev body")
    case Nil
    then show ?thesis by simp
  next
    case (Cons c cs)
    then have "c \<in> set body"
      by (metis list.set_intros(1) set_rev)
    with Cons no_eq show ?thesis by simp
  qed
  finally have body: "rev (dropWhile ?eq (rev (body @ pad))) = body"
    by simp
  have "length pad \<le> 2"
    using assms(2) by auto
  then show ?thesis
    unfolding urlsafe_base64_text_def body Let_def
    using assms(1) by (auto simp: list_all_iff)
qed

lemma signature_text: "urlsafe_base64_text (to_urlsafe (base64_encode bs))"
proof -
  obtain body pad where r: "base64_encode bs = body @ pad"
    "set body \<subseteq> set base64_alphabet" "pad = [] \<or> pad = ''='' \<or> pad = ''==''"
    using base64_encode_shape by blast
  show ?thesis
    unfolding r(1) to_urlsafe_padding [OF r(3)]
    using to_urlsafe_alphabet [OF r(2)] r(3) by (rule padded_text)
qed

lemma to_urlsafe_chars: "CHR ''+'' \<notin> set (to_urlsafe s) \<and> CHR ''/'' \<notin> set (to_urlsafe s)"
  by (auto simp: to_urlsafe_def)



lemma sample_parse:
  "parseURL sample_platform ''https://maps.googleapis.com/maps/api/geocode/json?address=x''
   = Some \<lparr>protocol = ''https:'', host = ''maps.googleapis.com'',
            pathname = ''/maps/api/geocode/json'', search = ''?address=x'', hash = []\<rparr>"
  by (simp add: sample_platform_def sample_parseURL_def)

lemma base64_encode_examples:
  "base64_encode [77, 97, 110] = ''TWFu'' \<and> base64_encode [77, 97] = ''TWE=''
   \<and> base64_encode [77] = ''TQ==''"
  by (simp add: sextet_def base64_alphabet_def)

text \<open>
  C1: for every URL string \<open>u\<close> that parses and every secret string \<open>s\<close>,
  \<^verbatim>\<open>createPremiumPlanSignature\<close> returns the URL-safe translation of the base64
  encoding of the HMAC-SHA1 whose key is the base64 decoding of \<open>s\<close> translated back to
  the standard alphabet and whose message is the path followed by the query of \<open>u\<close>.
  Nothing else of \<open>u\<close> enters the signature: two URLs with the same path and query,
  whatever their scheme, host and fragment, get the same one.
\<close>

theorem createPremiumPlanSignature_formula:
  assumes "parseURL P u = Some url"
  shows "createPremiumPlanSignature P u (JStr s) =
           Inr (to_urlsafe (base64_encode
             (hmacSha1 P (base64Decode P (from_urlsafe s)) (pathname url @ search url))))
         \<and> (\<forall>u' url'. parseURL P u' = Some url' \<and> pathname url' = pathname url
                \<and> search url' = search url \<longrightarrow>
              createPremiumPlanSignature P u' (JStr s) = createPremiumPlanSignature P u (JStr s))"
  using assms by (simp add: createPremiumPlanSignature_parsed)

theorem createPremiumPlanSignature_formula_witness:
  "createPremiumPlanSignature sample_platform
     ''https://maps.googleapis.com/maps/api/geocode/json?address=x'' (JStr ''c2VjcmV0'')
   = Inr ''c2VjcmV0L21hcHMvYXBpL2dlb2M=''"
  using createPremiumPlanSignature_formula [OF sample_parse, of "''c2VjcmV0''"]
  by (simp add: sample_platform_def sample_base64Decode_def sample_hmac_def from_urlsafe_def
      to_urlsafe_def base64_alphabet_def sextet_def)

text \<open>
  C3, as the claim states it, fails: the secret \<^verbatim>\<open>!\<close> is not valid base64, and the
  function raises nothing. It signs with what the decoder makes of the secret, here
  the empty key.
\<close>

theorem malformed_secret_counterexample:
  "\<not> valid_base64 (from_urlsafe ''!'')
   \<and> createPremiumPlanSignature sample_platform
       ''https://maps.googleapis.com/maps/api/geocode/json?address=x'' (JStr ''!'')
     = Inr ''L21hcHMvYXBpL2dlb2NvZGUvanM=''"
  using createPremiumPlanSignature_parsed [OF sample_parse, of "''!''"]
  by (simp add: sample_platform_def sample_base64Decode_def sample_hmac_def from_urlsafe_def
      to_urlsafe_def base64_alphabet_def sextet_def valid_base64_def)

text \<open>
  C3, amended: \<^verbatim>\<open>createPremiumPlanSignature\<close> does not check the secret. For every
  secret string, valid base64 or not, it fails exactly when the URL does not parse, and
  then with the error of the \<^verbatim>\<open>URL\<close> constructor; otherwise it returns the signature
  computed with the bytes the decoder yields for the translated secret.
\<close>

theorem createPremiumPlanSignature_secret_unchecked:
  "isl (createPremiumPlanSignature P u (JStr s)) = (parseURL P u = None)
   \<and> (createPremiumPlanSignature P u (JStr s) = Inl e \<longrightarrow> e = ERR_INVALID_URL)
   \<and> (parseURL P u = Some url \<longrightarrow>
        createPremiumPlanSignature P u (JStr s) =
          Inr (to_urlsafe (base64_encode
            (hmacSha1 P (base64Decode P (from_urlsafe s)) (pathname url @ search url)))))"
  using createPremiumPlanSignature_parsed [of P u _ s] createPremiumPlanSignature_unparsed [of P u "JStr s"]
  by (cases "parseURL P u") auto

theorem createPremiumPlanSignature_secret_unchecked_witness:
  "\<not> isl (createPremiumPlanSignature sample_platform
       ''https://maps.googleapis.com/maps/api/geocode/json?address=x'' (JStr ''not base64!''))
   \<and> createPremiumPlanSignature sample_platform ''/maps/api/geocode/json'' (JStr ''c2VjcmV0'')
     = Inl ERR_INVALID_URL"
  using createPremiumPlanSignature_secret_unchecked
      [of sample_platform "''https://maps.googleapis.com/maps/api/geocode/json?address=x''"
          "''not base64!''"]
    createPremiumPlanSignature_secret_unchecked
      [of sample_platform "''/maps/api/geocode/json''" "''c2VjcmV0''" ERR_INVALID_URL]
    sample_parse
  by (simp add: sample_platform_def sample_parseURL_def createPremiumPlanSignature_def)

text \<open>
  C9: \<^verbatim>\<open>createPremiumPlanSignature\<close> is a function of its two arguments, so two calls
  with the same URL and secret return the same signature; and every signature it
  returns is a text of URL-safe base64: characters of the URL-safe alphabet followed
  by at most two padding characters, with no \<^verbatim>\<open>+\<close> and no \<^verbatim>\<open>/\<close>.
\<close>

theorem createPremiumPlanSignature_urlsafe:
  assumes "createPremiumPlanSignature P u (JStr s) = Inr sig"
  shows "urlsafe_base64_text sig \<and> CHR ''+'' \<notin> set sig \<and> CHR ''/'' \<notin> set sig
         \<and> (\<forall>u' s'. u' = u \<and> s' = s \<longrightarrow> createPremiumPlanSignature P u' (JStr s') = Inr sig)"
proof (cases "parseURL P u")
  case None
  with assms show ?thesis
    by (simp add: createPremiumPlanSignature_unparsed)
next
  case (Some url)
  from createPremiumPlanSignature_parsed [OF Some, of s] assms
  have "sig = to_urlsafe (base64_encode
      (hmacSha1 P (base64Decode P (from_urlsafe s)) (pathname url @ search url)))"
    by simp
  then show ?thesis
    using assms signature_text to_urlsafe_chars by simp
qed

theorem createPremiumPlanSignature_urlsafe_witness:
  "createPremiumPlanSignature sample_platform
     ''https://maps.googleapis.com/maps/api/geocode/json?address=x'' (JStr ''_-8='')
   = Inr ''_-8vbWFwcy9hcGkvZ2VvY29kZS8=''
   \<and> urlsafe_base64_text ''_-8vbWFwcy9hcGkvZ2VvY29kZS8=''"
proof -
  have sig: "createPremiumPlanSignature sample_platform
     ''https://maps.googleapis.com/maps/api/geocode/json?address=x'' (JStr ''_-8='')
   = Inr ''_-8vbWFwcy9hcGkvZ2VvY29kZS8=''"
    using createPremiumPlanSignature_parsed [OF sample_parse, of "''_-8=''"]
    by (simp add: sample_platform_def sample_base64Decode_def sample_hmac_def from_urlsafe_def
      to_urlsafe_def base64_alphabet_def sextet_def)
  show ?thesis
    using sig createPremiumPlanSignature_urlsafe [OF sig] by simp
qed

section \<open>Query strings\<close>




















section \<open>The query encoder on the store\<close>






lemma split_on_two: "c \<in> set s \<Longrightarrow> \<exists>p q qs. split_on c s = p # q # qs"
proof (induction s)
  case Nil
  then show ?case by simp
next
  case (Cons a s)
  show ?case
  proof (cases "a = c")
    case True
    obtain q qs where "split_on c s = q # qs"
      using split_on_nonempty [of c s] by (cases "split_on c s") auto
    with True show ?thesis by simp
  next
    case False
    with Cons.prems have "c \<in> set s" by simp
    then obtain p q qs where "split_on c s = p # q # qs"
      using Cons.IH by blast
    with False show ?thesis by simp
  qed
qed

lemma last_split_on_Cons: "c \<in> set s \<Longrightarrow> last (split_on c (a # s)) = last (split_on c s)"
proof -
  assume "c \<in> set s"
  then obtain p q qs where "split_on c s = p # q # qs"
    using split_on_two by blast
  then show ?thesis by simp
qed

lemma last_split_on: "last (split_on c (xs @ c # ys)) = last (split_on c ys)"
proof (induction xs)
  case Nil
  show ?case by (simp add: split_on_nonempty)
next
  case (Cons a xs)
  have "last (split_on c (a # (xs @ c # ys))) = last (split_on c (xs @ c # ys))"
    by (rule last_split_on_Cons) simp
  with Cons show ?case by simp
qed

lemma last_field:
  "c \<notin> set ys \<Longrightarrow> last (split_on c (xs @ c # ys)) = ys"
  by (simp add: last_split_on split_on_absent)

lemma apply_format_length: "length (fst (apply_format fmt h a)) = length h"
  by (induction fmt h a rule: apply_format.induct)
    (auto simp: deref_def split: option.splits sum.splits if_splits)

lemma apply_format_frame: "n \<le> a \<Longrightarrow> take n (fst (apply_format fmt h a)) = take n h"
  by (induction fmt h a rule: apply_format.induct)
    (auto simp: deref_def split: option.splits sum.splits if_splits)

lemma createPremiumPlanQueryString_length:
  "length (fst (createPremiumPlanQueryString P h a opts b)) = length h"
  by (auto simp: createPremiumPlanQueryString_def Let_def split: option.splits sum.splits)

lemma createPremiumPlanQueryString_frame:
  "n \<le> a \<Longrightarrow> take n (fst (createPremiumPlanQueryString P h a opts b)) = take n h"
  by (auto simp: createPremiumPlanQueryString_def Let_def split: option.splits sum.splits)

lemma serializer_cases:
  obtains (dangling) "deref h params = None"
      "serializer P format baseUrl options h params = (h, Inl TypeError)"
    | (thrown) ps h2 e where "deref h params = Some ps"
      "apply_format format (h @ [ps]) (length h) = (h2, Inl e)"
      "serializer P format baseUrl options h params = (h2, Inl e)"
    | (premium) ps h2 sp where "deref h params = Some ps"
      "apply_format format (h @ [ps]) (length h) = (h2, Inr ())"
      "deref h2 (length h) = Some sp"
      "has_key ''client_id'' sp" "has_key ''client_secret'' sp"
      "serializer P format baseUrl options h params =
         createPremiumPlanQueryString P h2 (length h)
           (if options = Undefined then default_queryStringOptions else options) baseUrl"
    | (plain) ps h2 sp where "deref h params = Some ps"
      "apply_format format (h @ [ps]) (length h) = (h2, Inr ())"
      "deref h2 (length h) = Some sp"
      "\<not> (has_key ''client_id'' sp \<and> has_key ''client_secret'' sp)"
      "serializer P format baseUrl options h params =
         (h2, stringify P sp (if options = Undefined then default_queryStringOptions else options))"
proof (cases "deref h params")
  case None
  then show ?thesis
    using dangling by (simp add: serializer_def)
next
  case (Some ps)
  obtain h2 r where af: "apply_format format (h @ [ps]) (length h) = (h2, r)"
    by (cases "apply_format format (h @ [ps]) (length h)") auto
  have len: "length h2 = Suc (length h)"
    using apply_format_length [of format "h @ [ps]" "length h"] af by simp
  then obtain sp where sp: "deref h2 (length h) = Some sp"
    by (simp add: deref_def)
  show ?thesis
  proof (cases r)
    case (Inl e)
    with Some af show ?thesis
      using thrown by (simp add: serializer_def)
  next
    case (Inr u)
    with Some af sp show ?thesis
      using premium [of ps h2 sp] plain [of ps h2 sp]
      by (cases "has_key ''client_id'' sp \<and> has_key ''client_secret'' sp")
        (simp_all add: serializer_def)
  qed
qed

lemma serializer_prefix:
  "take (length h) (fst (serializer P format baseUrl options h params)) = h"
proof (cases rule: serializer_cases [of h params P format baseUrl options])
  case dangling
  then show ?thesis by simp
next
  case (thrown ps h2 e)
  with apply_format_frame [of "length h" "length h" format "h @ [ps]"] show ?thesis
    by simp
next
  case (premium ps h2 sp)
  with apply_format_frame [of "length h" "length h" format "h @ [ps]"]
    createPremiumPlanQueryString_frame [of "length h" "length h" P h2]
  show ?thesis
    by simp
next
  case (plain ps h2 sp)
  with apply_format_frame [of "length h" "length h" format "h @ [ps]"] show ?thesis
    by simp
qed

lemma prefix_deref:
  "take (length h) h' = h \<Longrightarrow> a < length h \<Longrightarrow> deref h' a = deref h a"
proof -
  assume t: "take (length h) h' = h" and a: "a < length h"
  have "length (take (length h) h') = length h"
    using t by simp
  then have "length h \<le> length h'"
    by simp
  moreover have "take (length h) h' ! a = h' ! a"
    using a by simp
  then have "h' ! a = h ! a"
    using t by simp
  ultimately show ?thesis
    using a by (simp add: deref_def)
qed







lemma sample_run:
  "serializer sample_platform
     [(''latlng'', \<lambda>v. map_sum id JStr (latLngToString sample_platform v))]
     ''https://maps.googleapis.com/maps/api/geocode/json'' Undefined
     [[(''latlng'', JArr [JNum (Fin 1), JNum (Fin 2)]), (''client_id'', JStr ''clientID''),
       (''client_secret'', JStr ''c2VjcmV0'')]] 0
   = ([[(''latlng'', JArr [JNum (Fin 1), JNum (Fin 2)]), (''client_id'', JStr ''clientID''),
        (''client_secret'', JStr ''c2VjcmV0'')],
       [(''latlng'', JStr ''1,2''), (''client'', JStr ''clientID'')]],
      Inr ''client=clientID&latlng=1%2C2&signature=c2VjcmV0L21hcHMvYXBpL2dlb2M='')"
  by (simp add: serializer_def deref_def has_key_def get_prop_def delete_prop_def
      createPremiumPlanQueryString_def createPremiumPlanSignature_def Let_def
      latLngToString_def is_array2_def elements_def render_pair_def method_toString_def
      coerce_string_def replace_all_def
      sample_platform_def sample_stringify_def sample_entry_def uri_encode_def encode_char_def
      unreserved_def hex_digit_def hex_digits_def less_eq_char_def less_char_def
      sample_ToString_def sample_parseURL_def
      sample_base64Decode_def sample_hmac_def show_nat.simps digit_char_def
      base64_alphabet_def sextet_def)


text \<open>
  C8: for every table of serializers, base URL, options and parameter object, the
  function returned by \<^verbatim>\<open>serializer\<close> leaves every object that existed before the call
  as it was, the parameter object among them at every key, also on the premium plan
  path and also when the call throws: the store it leaves is the old store followed
  by the local copy, which nothing else refers to.
\<close>

theorem serializer_frame:
  "take (length h) (fst (serializer P format baseUrl options h params)) = h
   \<and> deref (fst (serializer P format baseUrl options h params)) params = deref h params"
proof (cases "params < length h")
  case True
  then show ?thesis
    using serializer_prefix [of h P format baseUrl options params]
      prefix_deref [of h "fst (serializer P format baseUrl options h params)" params]
    by simp
next
  case False
  then have "deref h params = None"
    by (simp add: deref_def)
  then have "serializer P format baseUrl options h params = (h, Inl TypeError)"
    by (simp add: serializer_def)
  then show ?thesis by simp
qed

theorem serializer_frame_witness:
  "fst (serializer sample_platform
     [(''latlng'', \<lambda>v. map_sum id JStr (latLngToString sample_platform v))]
     ''https://maps.googleapis.com/maps/api/geocode/json'' Undefined
     [[(''latlng'', JArr [JNum (Fin 1), JNum (Fin 2)]), (''client_id'', JStr ''clientID''),
       (''client_secret'', JStr ''c2VjcmV0'')]] 0)
   = [[(''latlng'', JArr [JNum (Fin 1), JNum (Fin 2)]), (''client_id'', JStr ''clientID''),
       (''client_secret'', JStr ''c2VjcmV0'')],
      [(''latlng'', JStr ''1,2''), (''client'', JStr ''clientID'')]]
   \<and> deref (fst (serializer sample_platform
     [(''latlng'', \<lambda>v. map_sum id JStr (latLngToString sample_platform v))]
     ''https://maps.googleapis.com/maps/api/geocode/json'' Undefined
     [[(''latlng'', JArr [JNum (Fin 1), JNum (Fin 2)]), (''client_id'', JStr ''clientID''),
       (''client_secret'', JStr ''c2VjcmV0'')]] 0)) 0
     = Some [(''latlng'', JArr [JNum (Fin 1), JNum (Fin 2)]), (''client_id'', JStr ''clientID''),
             (''client_secret'', JStr ''c2VjcmV0'')]"
  using serializer_frame
    [of "[[(''latlng'', JArr [JNum (Fin 1), JNum (Fin 2)]), (''client_id'', JStr ''clientID''),
           (''client_secret'', JStr ''c2VjcmV0'')]]"
        sample_platform "[(''latlng'', \<lambda>v. map_sum id JStr (latLngToString sample_platform v))]"
        "''https://maps.googleapis.com/maps/api/geocode/json''" Undefined 0]
    sample_run
  by (simp add: deref_def)




end
